theory Spec2Isabelle
  imports Main "HOL-Library.AList"
begin

section \<open>ipfs-publish.py: values, errors and the world the script runs in\<close>

text \<open>
  The script is Python 2. Its configuration is the dictionary that \<^verbatim>\<open>json.loads\<close>
  returns, so the model keeps it as a JSON value: a dictionary is an association list,
  looked up with \<open>map_of\<close>. Numbers are never used by the script other than as
  "not a string, list or dictionary", so integers stand for all of them.
\<close>

datatype json =
    JNull
  | JBool bool
  | JNum int
  | JStr string
  | JArr "json list"
  | JObj "(string \<times> json) list"

text \<open>
  Every exception the script can end with. \<open>SystemExit n\<close> is what \<^verbatim>\<open>exit(n)\<close>
  raises; the others are uncaught errors of the interpreter.
\<close>

datatype py_error =
    KeyError
  | TypeError
  | IndexError
  | AttributeError
  | ValueError
  | IOError
  | UnicodeDecodeError
  | SystemExit int

text \<open>
  The file \<^verbatim>\<open>ipfs-publish.json\<close> holds text. The model keeps the JSON document the
  text denotes (\<^verbatim>\<open>json.dumps\<close> followed by \<^verbatim>\<open>f.write\<close> stores a document,
  \<^verbatim>\<open>f.read\<close> followed by \<^verbatim>\<open>json.loads\<close> gives it back), or \<open>Garbage\<close> for
  text that \<^verbatim>\<open>json.loads\<close> rejects with ValueError; the empty text of a file that
  was opened for writing and never written is such a text. Layout of the text (sorted
  keys, indentation) is below the level of this model. The path is taken to name either
  nothing or a regular file that can be opened.
\<close>

datatype content = Doc json | Garbage

text \<open>What a shell command writes to its two output streams when it is run.\<close>

record proc_output =
  out_text :: string
  err_text :: string

text \<open>
  The world of one run: the configuration file, the paths that are directories, the
  behaviour of the shell, the local time as \<^verbatim>\<open>time.strftime\<close> formats it, and three
  logs of what the script did: lines printed, commands given to \<^verbatim>\<open>subprocess.Popen\<close>,
  documents written to the configuration file.
\<close>

record world =
  config_file :: "content option"
  dirs :: "string set"
  shell :: "string \<Rightarrow> proc_output"
  clock :: string
  printed :: "string list"
  invoked :: "string list"
  written :: "json list"

type_synonym 'a run = "(py_error + 'a) \<times> world"

subsection \<open>Python primitives\<close>

abbreviation NL :: char where
  "NL \<equiv> CHR 0x0A"

abbreviation DQ :: char where
  "DQ \<equiv> CHR 0x22"

text \<open>\<^verbatim>\<open>s.split(sep)\<close> for a one-character separator: one piece more than separators.\<close>

fun str_split :: "char \<Rightarrow> string \<Rightarrow> string list" where
  "str_split sep [] = [[]]"
| "str_split sep (c # cs) =
     (if c = sep then [] # str_split sep cs
      else (c # hd (str_split sep cs)) # tl (str_split sep cs))"

text \<open>\<^verbatim>\<open>xs[i]\<close> on a sequence: a negative index counts from the end, IndexError outside.\<close>

definition py_index :: "'a list \<Rightarrow> int \<Rightarrow> py_error + 'a" where
  "py_index xs i =
     (if 0 \<le> i \<and> i < int (length xs) then Inr (xs ! nat i)
      else if i < 0 \<and> - i \<le> int (length xs) then Inr (xs ! nat (int (length xs) + i))
      else Inl IndexError)"

text \<open>\<^verbatim>\<open>v[k]\<close> with a string key: only a dictionary accepts it.\<close>

fun getitem_key :: "json \<Rightarrow> string \<Rightarrow> py_error + json" where
  "getitem_key (JObj kvs) k = (case map_of kvs k of None \<Rightarrow> Inl KeyError | Some v \<Rightarrow> Inr v)"
| "getitem_key _ k = Inl TypeError"

text \<open>
  \<^verbatim>\<open>v[i]\<close> with an integer: a list or a string is indexed, a dictionary loaded from
  JSON has string keys only, everything else cannot be subscripted.
\<close>

fun getitem_idx :: "json \<Rightarrow> int \<Rightarrow> py_error + json" where
  "getitem_idx (JArr xs) i = py_index xs i"
| "getitem_idx (JStr s) i = (case py_index s i of Inl e \<Rightarrow> Inl e | Inr c \<Rightarrow> Inr (JStr [c]))"
| "getitem_idx (JObj kvs) i = Inl KeyError"
| "getitem_idx _ i = Inl TypeError"

text \<open>\<^verbatim>\<open>len(v)\<close>.\<close>

fun py_len :: "json \<Rightarrow> py_error + nat" where
  "py_len (JArr xs) = Inr (length xs)"
| "py_len (JStr s) = Inr (length s)"
| "py_len (JObj kvs) = Inr (length (remdups (map fst kvs)))"
| "py_len _ = Inl TypeError"

text \<open>\<^verbatim>\<open>v.append(x)\<close>: only a list has the method.\<close>

fun py_append :: "json \<Rightarrow> json \<Rightarrow> py_error + json" where
  "py_append (JArr xs) x = Inr (JArr (xs @ [x]))"
| "py_append _ x = Inl AttributeError"

text \<open>\<^verbatim>\<open>os.path.isdir(v)\<close>: a value that is not a string is a TypeError of \<^verbatim>\<open>os.stat\<close>.\<close>

fun isdir :: "world \<Rightarrow> json \<Rightarrow> py_error + bool" where
  "isdir w (JStr p) = Inr (p \<in> dirs w)"
| "isdir w _ = Inl TypeError"

text \<open>\<^verbatim>\<open>os.path.isfile("ipfs-publish.json")\<close>.\<close>

definition isfile :: "world \<Rightarrow> bool" where
  "isfile w = (config_file w \<noteq> None)"

text \<open>The \<^verbatim>\<open>print\<close> statement adds one line to the standard output.\<close>

definition print :: "string \<Rightarrow> world \<Rightarrow> world" where
  "print s w = w\<lparr>printed := printed w @ [s]\<rparr>"

text \<open>
  \<^verbatim>\<open>open("ipfs-publish.json", 'r')\<close>, \<^verbatim>\<open>f.read()\<close> and \<^verbatim>\<open>json.loads\<close>: IOError when
  the file is missing, ValueError when it is not JSON.
\<close>

definition load_config :: "world \<Rightarrow> py_error + json" where
  "load_config w =
     (case config_file w of
        None \<Rightarrow> Inl IOError
      | Some Garbage \<Rightarrow> Inl ValueError
      | Some (Doc c) \<Rightarrow> Inr c)"

text \<open>
  A byte of a Python 2 \<^verbatim>\<open>str\<close>, and the bytes \<^verbatim>\<open>10xxxxxx\<close> that continue a UTF-8
  sequence.
\<close>

definition byte :: "char \<Rightarrow> nat" where
  "byte c = of_char c"

definition continuation :: "char \<Rightarrow> bool" where
  "continuation c = (0x80 \<le> byte c \<and> byte c \<le> 0xBF)"

text \<open>
  The byte strings that \<^verbatim>\<open>s.decode('utf-8')\<close> accepts in Python 2.7: lead bytes
  \<^verbatim>\<open>C2..DF\<close>, \<^verbatim>\<open>E0..EF\<close> and \<^verbatim>\<open>F0..F4\<close> with one, two and three continuation bytes,
  no overlong form after \<^verbatim>\<open>E0\<close> and \<^verbatim>\<open>F0\<close>, nothing above U+10FFFF after
  \<^verbatim>\<open>F4\<close>. (The decoder of 2.7 lets the encodings of surrogates through.)
\<close>

fun utf8_valid :: "string \<Rightarrow> bool" where
  "utf8_valid [] = True"
| "utf8_valid (c # cs) =
     (if byte c < 0x80 then utf8_valid cs
      else if 0xC2 \<le> byte c \<and> byte c \<le> 0xDF then
        (case cs of
           c1 # r \<Rightarrow> continuation c1 \<and> utf8_valid r
         | _ \<Rightarrow> False)
      else if 0xE0 \<le> byte c \<and> byte c \<le> 0xEF then
        (case cs of
           c1 # c2 # r \<Rightarrow>
             continuation c1 \<and> continuation c2 \<and> \<not> (byte c = 0xE0 \<and> byte c1 < 0xA0) \<and>
             utf8_valid r
         | _ \<Rightarrow> False)
      else if 0xF0 \<le> byte c \<and> byte c \<le> 0xF4 then
        (case cs of
           c1 # c2 # c3 # r \<Rightarrow>
             continuation c1 \<and> continuation c2 \<and> continuation c3 \<and>
             \<not> (byte c = 0xF0 \<and> byte c1 < 0x90) \<and> \<not> (byte c = 0xF4 \<and> byte c1 > 0x8F) \<and>
             utf8_valid r
         | _ \<Rightarrow> False)
      else False)"

text \<open>
  The block \<^verbatim>\<open>with open("ipfs-publish.json", 'w') as f: f.write(json.dumps(config, ...))\<close>.
  Opening the file truncates it before \<^verbatim>\<open>json.dumps\<close> runs. \<^verbatim>\<open>json.dumps\<close> decodes
  every byte string (\<^verbatim>\<open>str\<close>) of the dictionary as UTF-8 and raises UnicodeDecodeError
  when one of them is not; the strings that \<^verbatim>\<open>json.loads\<close> returned are \<^verbatim>\<open>unicode\<close> and
  are not decoded. The first argument lists the byte strings the script has put into
  the dictionary (a command-line argument, the output of the tool, the formatted time).
  After the error the file is left empty; otherwise it holds the document, and the
  document is added to the log of writes.
\<close>

definition save_config :: "string list \<Rightarrow> json \<Rightarrow> world \<Rightarrow> unit run" where
  "save_config byte_strs c w =
     (if list_all utf8_valid byte_strs
      then (Inr (), w\<lparr>config_file := Some (Doc c), written := written w @ [c]\<rparr>)
      else (Inl UnicodeDecodeError, w\<lparr>config_file := Some Garbage\<rparr>))"

text \<open>
  \<^verbatim>\<open>subprocess.Popen(cmd, ..., shell=True)\<close> followed by \<^verbatim>\<open>proc.communicate()\<close>.
  The two flags say which streams were given \<^verbatim>\<open>subprocess.PIPE\<close>: \<^verbatim>\<open>communicate\<close>
  returns the text of a piped stream and \<^verbatim>\<open>None\<close> for a stream that was not piped
  (that stream goes to the terminal of the script instead).
\<close>

definition popen_communicate ::
  "string \<Rightarrow> bool \<Rightarrow> bool \<Rightarrow> world \<Rightarrow> (string option \<times> string option) \<times> world" where
  "popen_communicate cmd stdout_pipe stderr_pipe w =
     ((if stdout_pipe then Some (out_text (shell w cmd)) else None,
       if stderr_pipe then Some (err_text (shell w cmd)) else None),
      w\<lparr>invoked := invoked w @ [cmd]\<rparr>)"

section \<open>The functions of the script\<close>

text \<open>
  \<^verbatim>\<open>init(directory)\<close>: writes a configuration with no versions. The dictionary
  literal is \<^verbatim>\<open>{"versions":[], "directory":directory}\<close>; the directory is the byte
  string of the command line.
\<close>

definition init :: "string \<Rightarrow> world \<Rightarrow> unit run" where
  "init directory w =
     save_config [directory] (JObj [(''versions'', JArr []), (''directory'', JStr directory)]) w"

text \<open>\<^verbatim>\<open>new(hash_str)\<close>: a version entry stamped with the local time.\<close>

definition new :: "world \<Rightarrow> string \<Rightarrow> json" where
  "new w hash_str = JObj [(''date_time'', JStr (clock w)), (''hash'', JStr hash_str)]"

text \<open>
  The two lines \<^verbatim>\<open>hs = out.split('\n')\<close> and \<^verbatim>\<open>hash_str = hs[-2]\<close> of
  \<^verbatim>\<open>publish\<close>.
\<close>

definition hash_str_of :: "string \<Rightarrow> py_error + string" where
  "hash_str_of out = py_index (str_split NL out) (- 2)"

text \<open>
  The condition of the \<^verbatim>\<open>elif\<close>:
  \<^verbatim>\<open>len(config["versions"]) > 0 and hash_str == config["versions"][-1]["hash"]\<close>.
  The right operand of \<^verbatim>\<open>and\<close> is evaluated only when the left one holds.
\<close>

definition same_as_last :: "json \<Rightarrow> string \<Rightarrow> py_error + bool" where
  "same_as_last config hash_str =
     (case getitem_key config ''versions'' of
        Inl e \<Rightarrow> Inl e
      | Inr vs \<Rightarrow>
         (case py_len vs of
            Inl e \<Rightarrow> Inl e
          | Inr n \<Rightarrow>
             if n > 0 then
               (case getitem_idx vs (- 1) of
                  Inl e \<Rightarrow> Inl e
                | Inr v \<Rightarrow>
                   (case getitem_key v ''hash'' of
                      Inl e \<Rightarrow> Inl e
                    | Inr h \<Rightarrow> Inr (JStr hash_str = h)))
             else Inr False))"

text \<open>
  \<^verbatim>\<open>config["versions"].append(entry)\<close>: the list reached through the dictionary is
  extended in place, so the dictionary holds the longer list afterwards.
\<close>

fun setitem_key :: "json \<Rightarrow> string \<Rightarrow> json \<Rightarrow> json" where
  "setitem_key (JObj kvs) k v = JObj (AList.update k v kvs)"
| "setitem_key c k v = c"

definition append_version :: "json \<Rightarrow> json \<Rightarrow> py_error + json" where
  "append_version config entry =
     (case getitem_key config ''versions'' of
        Inl e \<Rightarrow> Inl e
      | Inr vs \<Rightarrow>
         (case py_append vs entry of
            Inl e \<Rightarrow> Inl e
          | Inr vs' \<Rightarrow> Inr (setitem_key config ''versions'' vs')))"

text \<open>
  The body of the \<^verbatim>\<open>if os.path.isdir(config["directory"])\<close> of \<^verbatim>\<open>publish\<close>, for
  the directory string. \<^verbatim>\<open>Popen\<close> is called with \<^verbatim>\<open>stdout=subprocess.PIPE\<close> only.
  The identifier is taken from the output before \<^verbatim>\<open>err\<close> is looked at. The new entry
  brings two byte strings into the dictionary: the formatted time and the identifier.
\<close>

definition publish_dir :: "json \<Rightarrow> string \<Rightarrow> world \<Rightarrow> string option run" where
  "publish_dir config directory w =
     (let w1 = print (''Publishing '' @ directory) w;
          (streams, w2) = popen_communicate (''ipfs add -q -r '' @ directory) True False w1;
          out = fst streams;
          err = snd streams
      in case out of
           None \<Rightarrow> (Inl AttributeError, w2)
         | Some text \<Rightarrow>
            (case hash_str_of text of
               Inl e \<Rightarrow> (Inl e, w2)
             | Inr hash_str \<Rightarrow>
                (case err of
                   Some e \<Rightarrow> (Inl (SystemExit 1), print e w2)
                 | None \<Rightarrow>
                    (case same_as_last config hash_str of
                       Inl e \<Rightarrow> (Inl e, w2)
                     | Inr same \<Rightarrow>
                        if same then (Inl (SystemExit 1), print ''Nothing to update.'' w2)
                        else
                          (let w3 = print hash_str w2
                           in case append_version config (new w3 hash_str) of
                                Inl e \<Rightarrow> (Inl e, w3)
                              | Inr config' \<Rightarrow>
                                 (case save_config [clock w3, hash_str] config' w3 of
                                    (Inl e, w4) \<Rightarrow> (Inl e, w4)
                                  | (Inr _, w4) \<Rightarrow> (Inr (Some hash_str), w4)))))))"

text \<open>
  \<^verbatim>\<open>publish()\<close>. When the recorded directory is not a directory the \<^verbatim>\<open>if\<close> has no
  \<^verbatim>\<open>else\<close>: the function returns \<^verbatim>\<open>None\<close>. A directory value that is not a
  string has made \<^verbatim>\<open>os.path.isdir\<close> raise before the body is reached.
\<close>

definition publish :: "world \<Rightarrow> string option run" where
  "publish w =
     (case load_config w of
        Inl e \<Rightarrow> (Inl e, w)
      | Inr config \<Rightarrow>
         (case getitem_key config ''directory'' of
            Inl e \<Rightarrow> (Inl e, w)
          | Inr d \<Rightarrow>
             (case isdir w d of
                Inl e \<Rightarrow> (Inl e, w)
              | Inr is_dir \<Rightarrow>
                 if is_dir then
                   (case d of
                      JStr directory \<Rightarrow> publish_dir config directory w
                    | _ \<Rightarrow> (Inl TypeError, w))
                 else (Inr None, w))))"

text \<open>
  The command line of \<^verbatim>\<open>deploy\<close>: four concatenations around the identifier, which
  has to be a string for the first of them to succeed.
\<close>

definition deploy_cmd :: "string \<Rightarrow> string" where
  "deploy_cmd hash_str =
     ''ssh -t basile@basilehenry.com '' @ [DQ] @ ''ipfs pin add '' @ hash_str @
     '' && ipfs name publish '' @ hash_str @ [DQ]"

text \<open>
  \<^verbatim>\<open>deploy()\<close>. \<^verbatim>\<open>Popen\<close> is called with \<^verbatim>\<open>stdin\<close> and \<^verbatim>\<open>stdout\<close> piped;
  the last line prints \<^verbatim>\<open>err\<close> when it is not \<^verbatim>\<open>None\<close> and \<^verbatim>\<open>out\<close> otherwise.
\<close>

definition deploy :: "world \<Rightarrow> unit run" where
  "deploy w =
     (case load_config w of
        Inl e \<Rightarrow> (Inl e, w)
      | Inr config \<Rightarrow>
         (case getitem_key config ''versions'' of
            Inl e \<Rightarrow> (Inl e, w)
          | Inr vs \<Rightarrow>
             (case py_len vs of
                Inl e \<Rightarrow> (Inl e, w)
              | Inr n \<Rightarrow>
                 if n > 0 then
                   (case getitem_idx vs (- 1) of
                      Inl e \<Rightarrow> (Inl e, w)
                    | Inr v \<Rightarrow>
                       (case getitem_key v ''hash'' of
                          Inl e \<Rightarrow> (Inl e, w)
                        | Inr h \<Rightarrow>
                           (case h of
                              JStr hash_str \<Rightarrow>
                                (let (streams, w1) = popen_communicate (deploy_cmd hash_str) True False w
                                 in (Inr (),
                                     print (case snd streams of
                                              Some e \<Rightarrow> e
                                            | None \<Rightarrow>
                                               (case fst streams of Some out \<Rightarrow> out | None \<Rightarrow> ''None''))
                                       w1))
                            | _ \<Rightarrow> (Inl TypeError, w))))
                 else (Inr (), w))))"

text \<open>A call followed by \<^verbatim>\<open>exit(n)\<close>: an exception of the call wins.\<close>

definition exit_after :: "'a run \<Rightarrow> int \<Rightarrow> unit run" where
  "exit_after r n = (case fst r of Inl e \<Rightarrow> (Inl e, snd r) | Inr _ \<Rightarrow> (Inl (SystemExit n), snd r))"

definition usage :: string where
  "usage = ''Usage: ./ipfs-publish.py [init <directory> | publish | deploy]''"

definition init_first :: string where
  "init_first =
     ''You have to '' @ [DQ] @ ''./ipfs-publish.py init <directory>'' @ [DQ] @
     '' before you can publish.''"

text \<open>
  \<^verbatim>\<open>main()\<close> on \<^verbatim>\<open>sys.argv\<close>. Every branch that does not leave with \<^verbatim>\<open>exit(0)\<close>
  reaches the final \<^verbatim>\<open>exit(1)\<close>.
\<close>

definition main :: "string list \<Rightarrow> world \<Rightarrow> unit run" where
  "main argv w =
     exit_after
       (if length argv < 2 then (Inr (), print usage w)
        else if argv ! 1 = ''init'' \<and> length argv > 2 then
          (if argv ! 2 \<in> dirs w then exit_after (init (argv ! 2) w) 0
           else (Inr (), print (argv ! 2 @ '' is not a directory.'') w))
        else if argv ! 1 = ''publish'' then
          (if isfile w then exit_after (publish w) 0
           else (Inr (), print init_first w))
        else if argv ! 1 = ''deploy'' then
          (if isfile w then exit_after (deploy w) 0
           else (Inr (), w))
        else (Inr (), print usage w))
       1"

text \<open>
  The exit status of the process: the argument of \<^verbatim>\<open>exit\<close>, and 1 for any other
  uncaught exception.
\<close>

definition exit_status :: "'a run \<Rightarrow> int" where
  "exit_status r = (case fst r of Inl (SystemExit n) \<Rightarrow> n | Inl _ \<Rightarrow> 1 | Inr _ \<Rightarrow> 0)"

section \<open>The records of the specification\<close>

text \<open>
  The specification speaks of a PublishRecord with a directory and a list of
  VersionEntry values. A configuration dictionary stands for such a record when its
  two keys hold a string and a list of entries, each with two string fields.
\<close>

record version_entry =
  date_time :: string
  hash :: string

record publish_record =
  directory :: string
  versions :: "version_entry list"

fun field :: "json \<Rightarrow> string \<Rightarrow> json option" where
  "field (JObj kvs) k = map_of kvs k"
| "field _ k = None"

fun str_of :: "json \<Rightarrow> string option" where
  "str_of (JStr s) = Some s"
| "str_of _ = None"

fun arr_of :: "json \<Rightarrow> json list option" where
  "arr_of (JArr xs) = Some xs"
| "arr_of _ = None"

definition entry_of :: "json \<Rightarrow> version_entry option" where
  "entry_of v =
     (case Option.bind (field v ''date_time'') str_of of
        None \<Rightarrow> None
      | Some t \<Rightarrow>
         (case Option.bind (field v ''hash'') str_of of
            None \<Rightarrow> None
          | Some h \<Rightarrow> Some \<lparr>date_time = t, hash = h\<rparr>))"

definition record_of :: "json \<Rightarrow> publish_record option" where
  "record_of c =
     (case Option.bind (field c ''directory'') str_of of
        None \<Rightarrow> None
      | Some d \<Rightarrow>
         (case Option.bind (field c ''versions'') arr_of of
            None \<Rightarrow> None
          | Some vs \<Rightarrow>
             (case those (map entry_of vs) of
                None \<Rightarrow> None
              | Some es \<Rightarrow> Some \<lparr>directory = d, versions = es\<rparr>)))"

text \<open>The record the configuration file holds, if it holds one.\<close>

definition persisted :: "world \<Rightarrow> publish_record option" where
  "persisted w = (case config_file w of Some (Doc c) \<Rightarrow> record_of c | _ \<Rightarrow> None)"

section \<open>Fixtures\<close>

text \<open>\<^verbatim>\<open>sep.join(ps)\<close>, the inverse of \<^verbatim>\<open>split\<close>; used to check \<open>str_split\<close>.\<close>

fun str_join :: "char \<Rightarrow> string list \<Rightarrow> string" where
  "str_join sep [] = []"
| "str_join sep [p] = p"
| "str_join sep (p # q # ps) = p @ sep # str_join sep (q # ps)"

text \<open>
  A small world for concrete runs: the only directory is \<^verbatim>\<open>site\<close>, every shell
  command writes the same two texts, nothing has been printed, invoked or written.
\<close>

definition example_world :: "content option \<Rightarrow> string \<Rightarrow> string \<Rightarrow> world" where
  "example_world file out err =
     \<lparr>config_file = file,
      dirs = {''site''},
      shell = (\<lambda>cmd. \<lparr>out_text = out, err_text = err\<rparr>),
      clock = ''2016-05-01 10:00:00'',
      printed = [],
      invoked = [],
      written = []\<rparr>"

definition example_config :: "string \<Rightarrow> string list \<Rightarrow> json" where
  "example_config d hs =
     JObj [(''directory'', JStr d),
           (''versions'',
            JArr (map (\<lambda>h. JObj [(''date_time'', JStr ''2016-04-01 09:00:00''), (''hash'', JStr h)]) hs))]"

section \<open>Properties of the primitives\<close>

lemma str_split_not_Nil: "str_split sep s \<noteq> []"
  by (induction s) auto

lemma length_str_split: "length (str_split sep s) = Suc (count_list s sep)"
  by (induction s) (auto simp: str_split_not_Nil)

lemma str_split_two: "sep \<in> set s \<Longrightarrow> 2 \<le> length (str_split sep s)"
  using count_list_0_iff [of s sep] by (simp add: length_str_split)

lemma str_split_one: "sep \<notin> set s \<Longrightarrow> str_split sep s = [s]"
  by (induction s) auto

text \<open>One step of \<open>str_split\<close> with the recursive call made once, for evaluation.\<close>

lemma str_split_step:
  "str_split sep (c # cs) =
     (case str_split sep cs of
        [] \<Rightarrow> []
      | p # ps \<Rightarrow> if c = sep then [] # p # ps else (c # p) # ps)"
  using str_split_not_Nil [of sep cs] by (cases "str_split sep cs") simp_all

lemma sep_notin_pieces: "p \<in> set (str_split sep s) \<Longrightarrow> sep \<notin> set p"
proof (induction s arbitrary: p)
  case Nil
  then show ?case by simp
next
  case (Cons c cs)
  have ne: "str_split sep cs \<noteq> []" by (rule str_split_not_Nil)
  show ?case
  proof (cases "c = sep")
    case True
    with Cons show ?thesis by auto
  next
    case False
    with Cons.prems have "p = c # hd (str_split sep cs) \<or> p \<in> set (tl (str_split sep cs))"
      by simp
    then show ?thesis
    proof
      assume "p = c # hd (str_split sep cs)"
      moreover have "sep \<notin> set (hd (str_split sep cs))"
        using Cons.IH ne by simp
      ultimately show ?thesis using False by auto
    next
      assume "p \<in> set (tl (str_split sep cs))"
      then have "p \<in> set (str_split sep cs)" using ne by (meson list.set_sel(2))
      then show ?thesis by (rule Cons.IH)
    qed
  qed
qed

lemma str_join_Cons: "ps \<noteq> [] \<Longrightarrow> str_join sep ((c # hd ps) # tl ps) = c # str_join sep ps"
  by (cases ps; cases "tl ps") auto

lemma str_join_Nil_Cons: "ps \<noteq> [] \<Longrightarrow> str_join sep ([] # ps) = sep # str_join sep ps"
  by (cases ps) auto

text \<open>Splitting loses nothing: joining the pieces with the separator gives the text back.\<close>

lemma join_split: "str_join sep (str_split sep s) = s"
  by (induction s) (simp_all add: str_split_not_Nil str_join_Cons str_join_Nil_Cons)

lemma py_index_m2: "2 \<le> length xs \<Longrightarrow> py_index xs (- 2) = Inr (xs ! (length xs - 2))"
  by (auto simp: py_index_def nat_diff_distrib' intro: arg_cong[where f="nth xs"])

lemma py_index_m2_short: "length xs < 2 \<Longrightarrow> py_index xs (- 2) = Inl IndexError"
  by (auto simp: py_index_def)

lemma py_index_m1: "xs \<noteq> [] \<Longrightarrow> py_index xs (- 1) = Inr (last xs)"
  by (cases xs rule: rev_cases) (auto simp: py_index_def)

text \<open>A byte string of ASCII characters only is UTF-8.\<close>

lemma utf8_valid_ascii: "\<forall>c \<in> set s. byte c < 0x80 \<Longrightarrow> utf8_valid s"
  by (induction s) auto

section \<open>Dictionaries that stand for records\<close>

lemma those_eq_Some: "those os = Some ys \<longleftrightarrow> os = map Some ys"
  by (induction os arbitrary: ys) (auto split: option.splits)

lemma entry_ofD:
  assumes "entry_of v = Some e"
  shows "\<exists>kvs. v = JObj kvs \<and> map_of kvs ''hash'' = Some (JStr (hash e))
           \<and> map_of kvs ''date_time'' = Some (JStr (date_time e))"
proof (cases v)
  case (JObj kvs)
  with assms show ?thesis
    by (auto simp: entry_of_def split: option.splits Option.bind_splits elim!: str_of.elims)
qed (use assms in \<open>simp_all add: entry_of_def\<close>)

lemma record_ofD:
  assumes "record_of c = Some r"
  shows "\<exists>kvs vs. c = JObj kvs \<and> map_of kvs ''directory'' = Some (JStr (directory r))
           \<and> map_of kvs ''versions'' = Some (JArr vs)
           \<and> map entry_of vs = map Some (versions r)"
proof (cases c)
  case (JObj kvs)
  with assms show ?thesis
    by (auto simp: record_of_def those_eq_Some split: option.splits Option.bind_splits
        elim!: str_of.elims arr_of.elims)
qed (use assms in \<open>simp_all add: record_of_def\<close>)

lemma entries_last:
  assumes "map entry_of vs = map Some es" and "es \<noteq> []"
  shows "vs \<noteq> [] \<and> entry_of (last vs) = Some (last es)"
proof -
  from assms have ne: "vs \<noteq> []" by auto
  have "entry_of (last vs) = last (map entry_of vs)" using ne by (simp add: last_map)
  also have "\<dots> = Some (last es)" using assms by (simp add: last_map)
  finally show ?thesis using ne by simp
qed

text \<open>On a record the \<^verbatim>\<open>elif\<close> condition never raises and compares with the last entry.\<close>

lemma same_as_last_record:
  assumes "record_of c = Some r"
  shows "same_as_last c h = Inr (versions r \<noteq> [] \<and> h = hash (last (versions r)))"
proof -
  from record_ofD [OF assms] obtain kvs vs where c: "c = JObj kvs"
    and vs: "map_of kvs ''versions'' = Some (JArr vs)"
    and es: "map entry_of vs = map Some (versions r)" by blast
  show ?thesis
  proof (cases "versions r = []")
    case True
    with es have "vs = []" by simp
    with c vs True show ?thesis by (simp add: same_as_last_def)
  next
    case False
    from entries_last [OF es False] have ne: "vs \<noteq> []"
      and l: "entry_of (last vs) = Some (last (versions r))" by simp_all
    from entry_ofD [OF l] obtain e where "last vs = JObj e"
      and "map_of e ''hash'' = Some (JStr (hash (last (versions r))))" by blast
    with c vs ne False show ?thesis
      by (simp add: same_as_last_def py_index_m1)
  qed
qed

lemma entry_of_new: "entry_of (new w h) = Some \<lparr>date_time = clock w, hash = h\<rparr>"
  by (simp add: entry_of_def new_def)

lemma append_version_record:
  assumes "record_of c = Some r"
  shows "\<exists>c'. append_version c (new w h) = Inr c'
           \<and> record_of c' = Some (r\<lparr>versions := versions r @ [\<lparr>date_time = clock w, hash = h\<rparr>]\<rparr>)"
proof -
  from record_ofD [OF assms] obtain kvs vs where c: "c = JObj kvs"
    and d: "map_of kvs ''directory'' = Some (JStr (directory r))"
    and vs: "map_of kvs ''versions'' = Some (JArr vs)"
    and es: "map entry_of vs = map Some (versions r)" by blast
  let ?c' = "JObj (AList.update ''versions'' (JArr (vs @ [new w h])) kvs)"
  have "append_version c (new w h) = Inr ?c'"
    using c vs by (simp add: append_version_def)
  moreover have "those (map Some (versions r) @ [Some \<lparr>date_time = clock w, hash = h\<rparr>])
      = Some (versions r @ [\<lparr>date_time = clock w, hash = h\<rparr>])"
    by (simp add: those_eq_Some)
  then have "record_of ?c' = Some (r\<lparr>versions := versions r @ [\<lparr>date_time = clock w, hash = h\<rparr>]\<rparr>)"
    using d es by (simp add: record_of_def update_conv' entry_of_new)
  ultimately show ?thesis by blast
qed

section \<open>The paths through publish\<close>

lemma publish_record:
  assumes "config_file w = Some (Doc c)" and "record_of c = Some r"
  shows "publish w = (if directory r \<in> dirs w then publish_dir c (directory r) w else (Inr None, w))"
proof -
  from record_ofD [OF assms(2)] obtain kvs where "c = JObj kvs"
    and "map_of kvs ''directory'' = Some (JStr (directory r))" by blast
  with assms(1) show ?thesis by (simp add: publish_def load_config_def)
qed

lemma publish_dir_same:
  assumes "record_of c = Some r"
    and "hash_str_of (out_text (shell w (''ipfs add -q -r '' @ d))) = Inr h"
    and "versions r \<noteq> []" and "h = hash (last (versions r))"
  shows "publish_dir c d w =
     (Inl (SystemExit 1),
      w\<lparr>printed := printed w @ [''Publishing '' @ d, ''Nothing to update.''],
        invoked := invoked w @ [''ipfs add -q -r '' @ d]\<rparr>)"
  using assms(2-) same_as_last_record [OF assms(1), of h]
  by (simp add: publish_dir_def popen_communicate_def print_def)

lemma publish_dir_fresh:
  assumes "record_of c = Some r"
    and "hash_str_of (out_text (shell w (''ipfs add -q -r '' @ d))) = Inr h"
    and "versions r = [] \<or> h \<noteq> hash (last (versions r))"
    and "utf8_valid (clock w)" and "utf8_valid h"
  shows "\<exists>c'. publish_dir c d w =
     (Inr (Some h),
      w\<lparr>printed := printed w @ [''Publishing '' @ d, h],
        invoked := invoked w @ [''ipfs add -q -r '' @ d],
        config_file := Some (Doc c'),
        written := written w @ [c']\<rparr>)
     \<and> record_of c' = Some (r\<lparr>versions := versions r @ [\<lparr>date_time = clock w, hash = h\<rparr>]\<rparr>)"
proof -
  from append_version_record [OF assms(1), of w h] obtain c' where
    a: "append_version c (new w h) = Inr c'"
    and r: "record_of c' = Some (r\<lparr>versions := versions r @ [\<lparr>date_time = clock w, hash = h\<rparr>]\<rparr>)"
    by auto
  have "publish_dir c d w =
     (Inr (Some h),
      w\<lparr>printed := printed w @ [''Publishing '' @ d, h],
        invoked := invoked w @ [''ipfs add -q -r '' @ d],
        config_file := Some (Doc c'),
        written := written w @ [c']\<rparr>)"
    using assms(2-) same_as_last_record [OF assms(1), of h] a
    by (auto simp: publish_dir_def popen_communicate_def print_def new_def Let_def save_config_def)
  with r show ?thesis by blast
qed

text \<open>
  When the formatted time or the identifier is not UTF-8, \<^verbatim>\<open>json.dumps\<close> raises after
  the file has been truncated.
\<close>

lemma publish_dir_undecodable:
  assumes "record_of c = Some r"
    and "hash_str_of (out_text (shell w (''ipfs add -q -r '' @ d))) = Inr h"
    and "versions r = [] \<or> h \<noteq> hash (last (versions r))"
    and "\<not> (utf8_valid (clock w) \<and> utf8_valid h)"
  shows "fst (publish_dir c d w) = Inl UnicodeDecodeError
     \<and> config_file (snd (publish_dir c d w)) = Some Garbage"
proof -
  from append_version_record [OF assms(1), of w h] obtain c' where
    a: "append_version c (new w h) = Inr c'" by auto
  show ?thesis
    using assms(2-) same_as_last_record [OF assms(1), of h] a
    by (auto simp: publish_dir_def popen_communicate_def print_def new_def Let_def save_config_def)
qed

lemma publish_dir_no_hash:
  assumes "hash_str_of (out_text (shell w (''ipfs add -q -r '' @ d))) = Inl e"
  shows "publish_dir c d w =
     (Inl e,
      w\<lparr>printed := printed w @ [''Publishing '' @ d],
        invoked := invoked w @ [''ipfs add -q -r '' @ d]\<rparr>)"
  using assms by (simp add: publish_dir_def popen_communicate_def print_def)

section \<open>The command line and concrete configurations\<close>

lemma exit_after_Inr: "exit_after (Inr x, w) n = (Inl (SystemExit n), w)"
  by (simp add: exit_after_def)

lemma exit_after_Inl: "exit_after (Inl e, w) n = (Inl e, w)"
  by (simp add: exit_after_def)

lemma exit_after_twice: "exit_after (exit_after r m) n = exit_after r m"
  by (cases r; cases "fst r") (simp_all add: exit_after_def)

lemma exit_status_exit: "exit_status (Inl (SystemExit n), w) = n"
  by (simp add: exit_status_def)

lemma main_init:
  "main (prog # ''init'' # d # args) w =
     (if d \<in> dirs w then exit_after (init d w) 0
      else (Inl (SystemExit 1), print (d @ '' is not a directory.'') w))"
  by (simp add: main_def exit_after_twice exit_after_Inr)

lemma main_publish:
  "config_file w = Some f \<Longrightarrow> main (prog # ''publish'' # args) w = exit_after (publish w) 0"
  by (simp add: main_def isfile_def exit_after_twice)

lemma main_deploy:
  "config_file w = Some f \<Longrightarrow> main (prog # ''deploy'' # args) w = exit_after (deploy w) 0"
  by (simp add: main_def isfile_def exit_after_twice)

lemma record_of_example_config:
  "record_of (example_config d hs) =
     Some \<lparr>directory = d, versions = map (\<lambda>h. \<lparr>date_time = ''2016-04-01 09:00:00'', hash = h\<rparr>) hs\<rparr>"
proof -
  have "those (map (entry_of \<circ> (\<lambda>h. JObj [(''date_time'', JStr ''2016-04-01 09:00:00''), (''hash'', JStr h)])) hs)
      = Some (map (\<lambda>h. \<lparr>date_time = ''2016-04-01 09:00:00'', hash = h\<rparr>) hs)"
    by (simp add: those_eq_Some entry_of_def comp_def)
  then show ?thesis by (simp add: record_of_def example_config_def)
qed

lemma publish_missing:
  assumes "config_file w = Some (Doc c)" and "getitem_key c ''directory'' = Inr (JStr d)"
    and "d \<notin> dirs w"
  shows "publish w = (Inr None, w)"
  using assms by (simp add: publish_def load_config_def)

lemma getitem_directory:
  assumes "record_of c = Some r"
  shows "getitem_key c ''directory'' = Inr (JStr (directory r))"
  using record_ofD [OF assms] by auto

lemma publish_success:
  assumes "config_file w = Some (Doc c)" and "record_of c = Some r"
    and "publish w = (Inr (Some h), w')"
  shows "directory r \<in> dirs w
     \<and> hash_str_of (out_text (shell w (''ipfs add -q -r '' @ directory r))) = Inr h
     \<and> (\<exists>c'. w' = w\<lparr>printed := printed w @ [''Publishing '' @ directory r, h],
               invoked := invoked w @ [''ipfs add -q -r '' @ directory r],
               config_file := Some (Doc c'),
               written := written w @ [c']\<rparr>
           \<and> record_of c' = Some (r\<lparr>versions := versions r @ [\<lparr>date_time = clock w, hash = h\<rparr>]\<rparr>))"
proof -
  let ?d = "directory r"
  let ?out = "hash_str_of (out_text (shell w (''ipfs add -q -r '' @ ?d)))"
  have d: "?d \<in> dirs w"
    using assms publish_record [OF assms(1,2)] by (auto split: if_splits)
  then have pd: "publish_dir c ?d w = (Inr (Some h), w')"
    using assms(3) publish_record [OF assms(1,2)] by simp
  show ?thesis
  proof (cases ?out)
    case (Inl e)
    from publish_dir_no_hash [OF Inl, of c] pd show ?thesis by simp
  next
    case (Inr h')
    show ?thesis
    proof (cases "versions r \<noteq> [] \<and> h' = hash (last (versions r))")
      case True
      with publish_dir_same [OF assms(2) Inr] pd show ?thesis by simp
    next
      case False
      then have fresh: "versions r = [] \<or> h' \<noteq> hash (last (versions r))" by blast
      show ?thesis
      proof (cases "utf8_valid (clock w) \<and> utf8_valid h'")
        case True
        then have "utf8_valid (clock w)" and "utf8_valid h'" by simp_all
        from publish_dir_fresh [OF assms(2) Inr fresh this] pd d Inr show ?thesis by auto
      next
        case False
        from publish_dir_undecodable [OF assms(2) Inr fresh False] pd show ?thesis by simp
      qed
    qed
  qed
qed

lemma persisted_Doc: "config_file w = Some (Doc c) \<Longrightarrow> persisted w = record_of c"
  by (simp add: persisted_def)


lemma deploy_record:
  assumes "config_file w = Some (Doc c)" and "record_of c = Some r"
  shows "deploy w =
     (if versions r = [] then (Inr (), w)
      else (Inr (),
            w\<lparr>invoked := invoked w @ [deploy_cmd (hash (last (versions r)))],
              printed := printed w @ [out_text (shell w (deploy_cmd (hash (last (versions r)))))]\<rparr>))"
proof -
  from record_ofD [OF assms(2)] obtain kvs vs where c: "c = JObj kvs"
    and vs: "map_of kvs ''versions'' = Some (JArr vs)"
    and es: "map entry_of vs = map Some (versions r)" by blast
  show ?thesis
  proof (cases "versions r = []")
    case True
    with es have "vs = []" by simp
    with assms(1) c vs True show ?thesis by (simp add: deploy_def load_config_def)
  next
    case False
    from entries_last [OF es False] have ne: "vs \<noteq> []"
      and l: "entry_of (last vs) = Some (last (versions r))" by simp_all
    from entry_ofD [OF l] obtain e where "last vs = JObj e"
      and "map_of e ''hash'' = Some (JStr (hash (last (versions r))))" by blast
    with assms(1) c vs ne False show ?thesis
      by (simp add: deploy_def load_config_def py_index_m1 popen_communicate_def print_def)
  qed
qed

section \<open>The claims\<close>

subsection \<open>The identifier taken from the output\<close>

text \<open>
  Claim C1, as stated, at its own example: the output with the three lines Qmaaa, Qmbbb,
  Qmccc and a final newline splits into four pieces, the last one empty, and index -2
  is the third piece. The identifier is Qmccc, not Qmbbb. An output without any
  newline has a single piece and index -2 raises IndexError.
\<close>

theorem hash_str_example_counterexample:
  "hash_str_of (''Qmaaa'' @ NL # ''Qmbbb'' @ NL # ''Qmccc'' @ [NL]) = Inr ''Qmccc''
   \<and> hash_str_of (''Qmaaa'' @ NL # ''Qmbbb'' @ NL # ''Qmccc'' @ [NL]) \<noteq> Inr ''Qmbbb''
   \<and> hash_str_of ''Qmaaa'' = Inl IndexError"
  by (simp add: hash_str_of_def py_index_def str_split_step del: str_split.simps(2))

text \<open>
  Claim C1, amended: for every output that contains at least one newline, the list of
  pieces has at least two elements and the identifier is the second-to-last piece; for
  the output of the example that piece is Qmccc.
\<close>

theorem hash_str_second_to_last:
  "(NL \<in> set out \<longrightarrow>
      2 \<le> length (str_split NL out) \<and>
      hash_str_of out = Inr (str_split NL out ! (length (str_split NL out) - 2)))
   \<and> hash_str_of (''Qmaaa'' @ NL # ''Qmbbb'' @ NL # ''Qmccc'' @ [NL]) = Inr ''Qmccc''"
proof
  show "NL \<in> set out \<longrightarrow>
      2 \<le> length (str_split NL out) \<and>
      hash_str_of out = Inr (str_split NL out ! (length (str_split NL out) - 2))"
    by (simp add: hash_str_of_def str_split_two py_index_m2)
  show "hash_str_of (''Qmaaa'' @ NL # ''Qmbbb'' @ NL # ''Qmccc'' @ [NL]) = Inr ''Qmccc''"
    by (simp add: hash_str_of_def py_index_def str_split_step del: str_split.simps(2))
qed

text \<open>
  Claim C1, the amended statement at the output with the lines X and Y.
\<close>

theorem hash_str_second_to_last_witness:
  "NL \<in> set (''X'' @ NL # ''Y'' @ [NL]) \<and> hash_str_of (''X'' @ NL # ''Y'' @ [NL]) = Inr ''Y''"
  using hash_str_second_to_last [of "''X'' @ NL # ''Y'' @ [NL]"] by simp

subsection \<open>Output on standard error\<close>

text \<open>
  Claim C2 says that anything the add command writes to standard error makes publish
  report it and exit with a non-zero status, with no new version. The call of
  \<^verbatim>\<open>Popen\<close> pipes standard output only, so \<^verbatim>\<open>err\<close> is \<^verbatim>\<open>None\<close> whatever the command
  writes, and the branch \<^verbatim>\<open>if err != None\<close> is never taken. Here the command
  writes an identifier to standard output and a warning to standard error: publish
  returns the identifier, appends the version, rewrites the file, and the process
  exits with status 0.
\<close>

theorem publish_ignores_stderr:
  "publish (example_world (Some (Doc (example_config ''site'' []))) (''Qmabc'' @ [NL]) ''warning'') =
     (Inr (Some ''Qmabc''),
      \<lparr>config_file = Some (Doc (JObj [(''directory'', JStr ''site''),
          (''versions'', JArr [JObj [(''date_time'', JStr ''2016-05-01 10:00:00''), (''hash'', JStr ''Qmabc'')]])])),
       dirs = {''site''},
       shell = (\<lambda>cmd. \<lparr>out_text = ''Qmabc'' @ [NL], err_text = ''warning''\<rparr>),
       clock = ''2016-05-01 10:00:00'',
       printed = [''Publishing site'', ''Qmabc''],
       invoked = [''ipfs add -q -r site''],
       written = [JObj [(''directory'', JStr ''site''),
          (''versions'', JArr [JObj [(''date_time'', JStr ''2016-05-01 10:00:00''), (''hash'', JStr ''Qmabc'')]])]]\<rparr>)
   \<and> exit_status (main [''ipfs-publish.py'', ''publish'']
        (example_world (Some (Doc (example_config ''site'' []))) (''Qmabc'' @ [NL]) ''warning'')) = 0"
    (is "publish ?w = ?res \<and> _")
proof -
  have p: "publish ?w = ?res"
    by (simp add: publish_def publish_dir_def load_config_def example_world_def example_config_def
      popen_communicate_def print_def hash_str_of_def py_index_def same_as_last_def
      append_version_def new_def save_config_def byte_def str_split_step
      del: str_split.simps(2))
  have "config_file ?w = Some (Doc (example_config ''site'' []))"
    by (simp add: example_world_def)
  then have "main [''ipfs-publish.py'', ''publish''] ?w = exit_after (publish ?w) 0"
    by (rule main_publish)
  then have "exit_status (main [''ipfs-publish.py'', ''publish''] ?w) = 0"
    by (simp only: p exit_after_Inr exit_status_exit)
  with p show ?thesis by (rule conjI)
qed

subsection \<open>Nothing to update\<close>



text \<open>
  Publishing twice: after a publish that returned an identifier,
  a second publish in the resulting world (same directory, same tool output) ends with
  \<^verbatim>\<open>exit(1)\<close> and writes nothing.
\<close>

lemma publish_twice:
  assumes "config_file w = Some (Doc c)" and "record_of c = Some r"
    and "publish w = (Inr (Some h), w')"
  shows "fst (publish w') = Inl (SystemExit 1)
     \<and> config_file (snd (publish w')) = config_file w'
     \<and> written (snd (publish w')) = written w'"
proof -
  from publish_success [OF assms] obtain c' where
    d: "directory r \<in> dirs w"
    and o: "hash_str_of (out_text (shell w (''ipfs add -q -r '' @ directory r))) = Inr h"
    and w': "w' = w\<lparr>printed := printed w @ [''Publishing '' @ directory r, h],
               invoked := invoked w @ [''ipfs add -q -r '' @ directory r],
               config_file := Some (Doc c'),
               written := written w @ [c']\<rparr>"
    and r': "record_of c' = Some (r\<lparr>versions := versions r @ [\<lparr>date_time = clock w, hash = h\<rparr>]\<rparr>)"
    by blast
  let ?r' = "r\<lparr>versions := versions r @ [\<lparr>date_time = clock w, hash = h\<rparr>]\<rparr>"
  have cf: "config_file w' = Some (Doc c')" using w' by simp
  have o': "hash_str_of (out_text (shell w' (''ipfs add -q -r '' @ directory r))) = Inr h"
    using o w' by simp
  have "publish w' = publish_dir c' (directory r) w'"
    using publish_record [OF cf r'] d w' by simp
  also have "\<dots> = (Inl (SystemExit 1),
      w'\<lparr>printed := printed w' @ [''Publishing '' @ directory r, ''Nothing to update.''],
        invoked := invoked w' @ [''ipfs add -q -r '' @ directory r]\<rparr>)"
    by (rule publish_dir_same [OF r' o']) simp_all
  finally show ?thesis by simp
qed

subsection \<open>A successful publish appends one entry\<close>

text \<open>
  Claim C4: when publish returns an identifier on a file that holds a record, the file
  holds afterwards the same record with one entry added at the end, stamped with the
  local time and carrying the identifier: the list is one longer and its old part is
  the old list.
\<close>

theorem publish_appends_one:
  assumes "config_file w = Some (Doc c)" and "record_of c = Some r"
    and "publish w = (Inr (Some h), w')"
  shows "persisted w' = Some (r\<lparr>versions := versions r @ [\<lparr>date_time = clock w, hash = h\<rparr>]\<rparr>)
     \<and> map_option (\<lambda>r'. length (versions r')) (persisted w') = Some (length (versions r) + 1)
     \<and> map_option (\<lambda>r'. take (length (versions r)) (versions r')) (persisted w') = Some (versions r)
     \<and> map_option (\<lambda>r'. hash (last (versions r'))) (persisted w') = Some h"
proof -
  from publish_success [OF assms] obtain c' where
    "w' = w\<lparr>printed := printed w @ [''Publishing '' @ directory r, h],
               invoked := invoked w @ [''ipfs add -q -r '' @ directory r],
               config_file := Some (Doc c'),
               written := written w @ [c']\<rparr>"
    and "record_of c' = Some (r\<lparr>versions := versions r @ [\<lparr>date_time = clock w, hash = h\<rparr>]\<rparr>)"
    by blast
  then have "persisted w' = Some (r\<lparr>versions := versions r @ [\<lparr>date_time = clock w, hash = h\<rparr>]\<rparr>)"
    by (simp add: persisted_def)
  then show ?thesis by simp
qed

text \<open>
  Claim C4 on a record with one version and a tool that prints a new identifier.
\<close>

theorem publish_appends_one_witness:
  "persisted (snd (publish
     (example_world (Some (Doc (example_config ''site'' [''Qmold''])))
        (''Qmfile'' @ NL # ''Qmnew'' @ [NL]) []))) =
      Some \<lparr>directory = ''site'',
            versions = [\<lparr>date_time = ''2016-04-01 09:00:00'', hash = ''Qmold''\<rparr>,
                        \<lparr>date_time = ''2016-05-01 10:00:00'', hash = ''Qmnew''\<rparr>]\<rparr>"
    (is "persisted (snd (publish ?w)) = _")
proof -
  let ?r = "\<lparr>directory = ''site'', versions = [\<lparr>date_time = ''2016-04-01 09:00:00'', hash = ''Qmold''\<rparr>]\<rparr>"
  have h1: "config_file ?w = Some (Doc (example_config ''site'' [''Qmold'']))"
    by (simp add: example_world_def)
  have h2: "record_of (example_config ''site'' [''Qmold'']) = Some ?r"
    by (simp add: record_of_example_config)
  have "fst (publish ?w) = Inr (Some ''Qmnew'')"
    by (simp add: publish_def publish_dir_def load_config_def example_world_def example_config_def
      popen_communicate_def print_def hash_str_of_def py_index_def same_as_last_def
      append_version_def new_def save_config_def byte_def str_split_step
      del: str_split.simps(2))
  then have h3: "publish ?w = (Inr (Some ''Qmnew''), snd (publish ?w))"
    by (simp add: prod_eq_iff)
  have "clock ?w = ''2016-05-01 10:00:00''" by (simp add: example_world_def)
  with publish_appends_one [OF h1 h2 h3] show ?thesis by simp
qed

subsection \<open>The recorded directory is not a directory\<close>




text \<open>
  Claim C6: when the file exists and its directory entry is a path that is not a
  directory, the whole run changes nothing in the world: no command is invoked, the
  file is not written and keeps its content, nothing is printed, and the exit status
  is 0.
\<close>

theorem publish_missing_directory_frame:
  assumes "config_file w = Some (Doc c)" and "getitem_key c ''directory'' = Inr (JStr d)"
    and "d \<notin> dirs w"
  shows "main (prog # ''publish'' # args) w = (Inl (SystemExit 0), w)
     \<and> invoked (snd (main (prog # ''publish'' # args) w)) = invoked w
     \<and> config_file (snd (main (prog # ''publish'' # args) w)) = config_file w
     \<and> written (snd (main (prog # ''publish'' # args) w)) = written w
     \<and> printed (snd (main (prog # ''publish'' # args) w)) = printed w
     \<and> exit_status (main (prog # ''publish'' # args) w) = 0"
  by (simp add: main_publish [OF assms(1)] publish_missing [OF assms] exit_after_Inr
      exit_status_exit)

text \<open>
  Claim C6 on a file whose directory is not among the directories.
\<close>

theorem publish_missing_directory_frame_witness:
  "main [''ipfs-publish.py'', ''publish'']
     (example_world (Some (Doc (example_config ''elsewhere'' [''Qmold'']))) (''Qmnew'' @ [NL]) []) =
   (Inl (SystemExit 0),
    example_world (Some (Doc (example_config ''elsewhere'' [''Qmold'']))) (''Qmnew'' @ [NL]) [])"
    (is "main ?argv ?w = _")
proof -
  have h1: "config_file ?w = Some (Doc (example_config ''elsewhere'' [''Qmold'']))"
    by (simp add: example_world_def)
  have h2: "getitem_key (example_config ''elsewhere'' [''Qmold'']) ''directory'' = Inr (JStr ''elsewhere'')"
    by (simp add: example_config_def)
  have h3: "''elsewhere'' \<notin> dirs ?w" by (simp add: example_world_def)
  from publish_missing_directory_frame [OF h1 h2 h3, of "''ipfs-publish.py''" "[]"]
  show ?thesis by (rule conjunct1)
qed

subsection \<open>Init\<close>

text \<open>
  Claim C7, as stated, fails for a directory whose name is not UTF-8, here the single
  byte \<^verbatim>\<open>FF\<close>: the file, which held a record with a version, is truncated, then
  \<^verbatim>\<open>json.dumps\<close> raises UnicodeDecodeError. No record is written, the file is left
  without one, and the process exits with status 1.
\<close>

theorem init_undecodable_counterexample:
  "[CHR 0xFF] \<in> dirs ((example_world (Some (Doc (example_config ''site'' [''Qmold'']))) [] [])
        \<lparr>dirs := {[CHR 0xFF]}\<rparr>)
   \<and> init [CHR 0xFF] ((example_world (Some (Doc (example_config ''site'' [''Qmold'']))) [] [])
        \<lparr>dirs := {[CHR 0xFF]}\<rparr>) =
       (Inl UnicodeDecodeError,
        (example_world (Some Garbage) [] [])\<lparr>dirs := {[CHR 0xFF]}\<rparr>)
   \<and> persisted (snd (main [''ipfs-publish.py'', ''init'', [CHR 0xFF]]
        ((example_world (Some (Doc (example_config ''site'' [''Qmold'']))) [] [])
           \<lparr>dirs := {[CHR 0xFF]}\<rparr>))) = None
   \<and> written (snd (main [''ipfs-publish.py'', ''init'', [CHR 0xFF]]
        ((example_world (Some (Doc (example_config ''site'' [''Qmold'']))) [] [])
           \<lparr>dirs := {[CHR 0xFF]}\<rparr>))) = []
   \<and> exit_status (main [''ipfs-publish.py'', ''init'', [CHR 0xFF]]
        ((example_world (Some (Doc (example_config ''site'' [''Qmold'']))) [] [])
           \<lparr>dirs := {[CHR 0xFF]}\<rparr>)) = 1"
    (is "_ \<in> dirs ?w \<and> init ?d ?w = ?res \<and> _")
proof -
  have d: "?d \<in> dirs ?w" by simp
  have i: "init ?d ?w = ?res"
    by (simp add: init_def save_config_def byte_def example_world_def)
  have m: "main [''ipfs-publish.py'', ''init'', ?d] ?w = ?res"
    using d by (simp only: main_init i exit_after_Inl if_True)
  have p: "persisted (snd ?res) = None" and w: "written (snd ?res) = []"
    by (simp_all add: persisted_def example_world_def)
  have e: "exit_status ?res = 1" by (simp add: exit_status_def)
  from d i p w e show ?thesis unfolding m by (intro conjI)
qed

text \<open>
  Claim C7, amended: for an existing directory whose name is UTF-8 (every ASCII name
  is), \<^verbatim>\<open>init\<close> writes the dictionary with that directory and an empty list of
  versions, whatever the file held before, and the process exits with status 0. The
  file then holds a record with that directory and no versions.
\<close>

theorem init_overwrites:
  assumes "d \<in> dirs w" and "utf8_valid d"
  shows "main (prog # ''init'' # d # args) w =
           (Inl (SystemExit 0),
            w\<lparr>config_file := Some (Doc (JObj [(''versions'', JArr []), (''directory'', JStr d)])),
              written := written w @ [JObj [(''versions'', JArr []), (''directory'', JStr d)]]\<rparr>)
     \<and> snd (init d w) = snd (main (prog # ''init'' # d # args) w)
     \<and> persisted (snd (init d w)) = Some \<lparr>directory = d, versions = []\<rparr>
     \<and> exit_status (main (prog # ''init'' # d # args) w) = 0"
  using assms
  by (simp add: main_init init_def save_config_def exit_after_Inr exit_status_exit persisted_def
      record_of_def)

text \<open>
  Claim C7, amended, on a file that held two versions, for a directory whose name has an
  accented letter in UTF-8 (the bytes \<^verbatim>\<open>C3 A9\<close>): after \<^verbatim>\<open>init\<close> the file holds
  that directory and no versions.
\<close>

theorem init_overwrites_witness:
  "persisted ((example_world (Some (Doc (example_config ''site'' [''Qmold'', ''Qmabc'']))) [] [])
       \<lparr>dirs := {''caf'' @ [CHR 0xC3, CHR 0xA9]}\<rparr>) =
     Some \<lparr>directory = ''site'',
           versions = [\<lparr>date_time = ''2016-04-01 09:00:00'', hash = ''Qmold''\<rparr>,
                       \<lparr>date_time = ''2016-04-01 09:00:00'', hash = ''Qmabc''\<rparr>]\<rparr>
   \<and> persisted (snd (init (''caf'' @ [CHR 0xC3, CHR 0xA9])
       ((example_world (Some (Doc (example_config ''site'' [''Qmold'', ''Qmabc'']))) [] [])
          \<lparr>dirs := {''caf'' @ [CHR 0xC3, CHR 0xA9]}\<rparr>))) =
     Some \<lparr>directory = ''caf'' @ [CHR 0xC3, CHR 0xA9], versions = []\<rparr>
   \<and> exit_status (main [''ipfs-publish.py'', ''init'', ''caf'' @ [CHR 0xC3, CHR 0xA9]]
       ((example_world (Some (Doc (example_config ''site'' [''Qmold'', ''Qmabc'']))) [] [])
          \<lparr>dirs := {''caf'' @ [CHR 0xC3, CHR 0xA9]}\<rparr>)) = 0"
    (is "persisted ?w = _ \<and> persisted (snd (init ?d ?w)) = _ \<and> _")
proof -
  have h1: "?d \<in> dirs ?w" by simp
  have h2: "utf8_valid ?d" by (simp add: byte_def continuation_def)
  have "persisted ?w = record_of (example_config ''site'' [''Qmold'', ''Qmabc''])"
    by (simp add: persisted_def example_world_def)
  then have "persisted ?w = Some \<lparr>directory = ''site'',
           versions = [\<lparr>date_time = ''2016-04-01 09:00:00'', hash = ''Qmold''\<rparr>,
                       \<lparr>date_time = ''2016-04-01 09:00:00'', hash = ''Qmabc''\<rparr>]\<rparr>"
    by (simp add: record_of_example_config)
  with init_overwrites [OF h1 h2, of "''ipfs-publish.py''" "[]"] show ?thesis by blast
qed

text \<open>
  Claim C8: for a path that is not a directory, the run prints that the path is not a
  directory and exits with status 1; the file is not written and keeps its content.
\<close>

theorem init_not_a_directory:
  assumes "p \<notin> dirs w"
  shows "main (prog # ''init'' # p # args) w =
           (Inl (SystemExit 1), w\<lparr>printed := printed w @ [p @ '' is not a directory.'']\<rparr>)
     \<and> exit_status (main (prog # ''init'' # p # args) w) = 1
     \<and> written (snd (main (prog # ''init'' # p # args) w)) = written w
     \<and> config_file (snd (main (prog # ''init'' # p # args) w)) = config_file w"
  using assms by (simp add: main_init print_def exit_status_exit)

text \<open>
  Claim C8 with no configuration file and a path that is not a directory.
\<close>

theorem init_not_a_directory_witness:
  "exit_status (main [''ipfs-publish.py'', ''init'', ''nowhere''] (example_world None [] [])) = 1
   \<and> printed (snd (main [''ipfs-publish.py'', ''init'', ''nowhere''] (example_world None [] []))) =
       [''nowhere is not a directory.'']
   \<and> config_file (snd (main [''ipfs-publish.py'', ''init'', ''nowhere''] (example_world None [] []))) =
       None"
proof -
  have h: "''nowhere'' \<notin> dirs (example_world None [] [])" by (simp add: example_world_def)
  from init_not_a_directory [OF h, of "''ipfs-publish.py''" "[]"]
  show ?thesis by (simp add: example_world_def exit_status_exit)
qed

subsection \<open>Deploy\<close>

text \<open>
  Claim C9: on a record with no versions deploy changes nothing (no command is
  invoked) and the process exits with status 0.
\<close>

theorem deploy_no_versions:
  assumes "config_file w = Some (Doc c)" and "record_of c = Some r" and "versions r = []"
  shows "deploy w = (Inr (), w)
     \<and> main (prog # ''deploy'' # args) w = (Inl (SystemExit 0), w)
     \<and> invoked (snd (main (prog # ''deploy'' # args) w)) = invoked w
     \<and> exit_status (main (prog # ''deploy'' # args) w) = 0"
proof -
  have "deploy w = (Inr (), w)"
    using deploy_record [OF assms(1,2)] assms(3) by simp
  then show ?thesis
    by (simp add: main_deploy [OF assms(1)] exit_after_Inr exit_status_exit)
qed

text \<open>
  Claim C9 on a freshly initialised record.
\<close>

theorem deploy_no_versions_witness:
  "main [''ipfs-publish.py'', ''deploy''] (example_world (Some (Doc (example_config ''site'' []))) [] []) =
     (Inl (SystemExit 0), example_world (Some (Doc (example_config ''site'' []))) [] [])
   \<and> invoked (example_world (Some (Doc (example_config ''site'' []))) [] []) = []"
    (is "main ?argv ?w = _ \<and> _")
proof -
  have h1: "config_file ?w = Some (Doc (example_config ''site'' []))"
    by (simp add: example_world_def)
  have h2: "record_of (example_config ''site'' []) = Some \<lparr>directory = ''site'', versions = []\<rparr>"
    using record_of_example_config [of "''site''" "[]"] by simp
  have h3: "versions \<lparr>directory = ''site'', versions = []\<rparr> = []" by simp
  have "invoked ?w = []" by (simp add: example_world_def)
  with deploy_no_versions [OF h1 h2 h3, of "''ipfs-publish.py''" "[]"]
  show ?thesis by blast
qed

text \<open>
  Claim C10: on a record with at least one version deploy invokes exactly one command,
  the \<^verbatim>\<open>ssh\<close> line with the hash of the last entry after \<^verbatim>\<open>ipfs pin add\<close> and
  again after \<^verbatim>\<open>ipfs name publish\<close>. The command is 67 fixed characters and two
  copies of the hash long.
\<close>

theorem deploy_invokes_once:
  assumes "config_file w = Some (Doc c)" and "record_of c = Some r" and "versions r \<noteq> []"
  shows "invoked (snd (deploy w)) =
           invoked w @
           [''ssh -t basile@basilehenry.com '' @ [DQ] @ ''ipfs pin add '' @ hash (last (versions r)) @
            '' && ipfs name publish '' @ hash (last (versions r)) @ [DQ]]
     \<and> length (deploy_cmd (hash (last (versions r)))) = 2 * length (hash (last (versions r))) + 67
     \<and> fst (deploy w) = Inr ()
     \<and> invoked (snd (main (prog # ''deploy'' # args) w)) = invoked (snd (deploy w))
     \<and> exit_status (main (prog # ''deploy'' # args) w) = 0"
proof -
  let ?h = "hash (last (versions r))"
  have d: "deploy w =
      (Inr (), w\<lparr>invoked := invoked w @ [deploy_cmd ?h],
                 printed := printed w @ [out_text (shell w (deploy_cmd ?h))]\<rparr>)"
    using deploy_record [OF assms(1,2)] assms(3) by simp
  have l: "length (deploy_cmd ?h) = 2 * length ?h + 67"
    by (simp add: deploy_cmd_def)
  have c: "deploy_cmd ?h = ''ssh -t basile@basilehenry.com '' @ [DQ] @ ''ipfs pin add '' @ ?h @
            '' && ipfs name publish '' @ ?h @ [DQ]"
    by (simp add: deploy_cmd_def)
  show ?thesis
    unfolding main_deploy [OF assms(1)] d exit_after_Inr exit_status_exit
    using l c by simp
qed

text \<open>
  Claim C10 on a record with two versions: the command names the second one twice.
\<close>

theorem deploy_invokes_once_witness:
  "invoked (snd (deploy (example_world (Some (Doc (example_config ''site'' [''Qmold'', ''Qmabc''])))
      ''done'' []))) =
     [''ssh -t basile@basilehenry.com '' @ [DQ] @ ''ipfs pin add Qmabc && ipfs name publish Qmabc'' @ [DQ]]"
    (is "invoked (snd (deploy ?w)) = _")
proof -
  let ?r = "\<lparr>directory = ''site'',
            versions = [\<lparr>date_time = ''2016-04-01 09:00:00'', hash = ''Qmold''\<rparr>,
                        \<lparr>date_time = ''2016-04-01 09:00:00'', hash = ''Qmabc''\<rparr>]\<rparr>"
  have h1: "config_file ?w = Some (Doc (example_config ''site'' [''Qmold'', ''Qmabc'']))"
    by (simp add: example_world_def)
  have h2: "record_of (example_config ''site'' [''Qmold'', ''Qmabc'']) = Some ?r"
    by (simp add: record_of_example_config)
  have h3: "versions ?r \<noteq> []" by simp
  have "invoked ?w = []" by (simp add: example_world_def)
  with deploy_invokes_once [OF h1 h2 h3, of "''ipfs-publish.py''" "[]"]
  show ?thesis by simp
qed

end
